theory Spec2Isabelle
  imports Main "HOL-Library.Word"
begin

unbundle bit_operations_syntax

section \<open>Data model\<close>

text \<open>
  The server module \<^verbatim>\<open>autogpt/core/runner/server.py\<close> imports \<^verbatim>\<open>Message\<close> and
  \<^verbatim>\<open>Role\<close> from the messaging package, which is not part of the sources at hand. The
  types below follow the data model of the specification.
\<close>

text \<open>Modelled from the spec: the enumeration \<^verbatim>\<open>Role\<close> (declared in
  \<^verbatim>\<open>autogpt.core.messaging.simple\<close>), a closed set of three sender categories.\<close>

datatype Role = USER | AGENT | AGENT_FACTORY

text \<open>
  Python values that can occur in a message's content, in its additional metadata and in
  the JSON body of a request: the JSON types, a float as its IEEE bit pattern, and a
  reference to an object of a class that defines no operators of its own (the broker that
  \<^verbatim>\<open>boostrap_new_agent\<close> stores under the key \<^verbatim>\<open>message_broker\<close>). A dictionary value
  lists its items in insertion order, each key once.
\<close>

datatype pyval =
    PNone
  | PBool bool
  | PInt int
  | PFloat "64 word"
  | PStr string
  | PList "pyval list"
  | PDict "(string \<times> pyval) list"
  | PObject nat

text \<open>Modelled from the spec: \<^verbatim>\<open>SenderIdentity\<close>, the metadata of a message and
  \<^verbatim>\<open>Message\<close> itself (declared in \<^verbatim>\<open>autogpt.core.messaging.simple\<close>).\<close>

record Sender =
  name :: string
  role :: Role

record MessageMetadata =
  sender :: Sender
  additional_metadata :: "string \<rightharpoonup> pyval"

record Message =
  content :: "string \<rightharpoonup> pyval"
  metadata :: MessageMetadata

text \<open>The exceptions of the model. \<open>KeyError\<close> carries the key that was missing.\<close>

datatype error =
    KeyError string
  | TypeError
  | AttributeError
  | IndexError

section \<open>Filter predicates (class \<^verbatim>\<open>MessageFilters\<close>)\<close>

definition is_user_message :: "Message \<Rightarrow> bool" where
  "is_user_message message = (role (sender (metadata message)) = USER)"

definition is_agent_message :: "Message \<Rightarrow> bool" where
  "is_agent_message message = (role (sender (metadata message)) = AGENT)"

definition is_agent_factory_message :: "Message \<Rightarrow> bool" where
  "is_agent_factory_message message = (role (sender (metadata message)) = AGENT_FACTORY)"

text \<open>\<^verbatim>\<open>a | b\<close> on two \<^verbatim>\<open>bool\<close>s is their disjunction, and is again a \<^verbatim>\<open>bool\<close>.\<close>

definition is_server_message :: "Message \<Rightarrow> bool" where
  "is_server_message message = (is_agent_message message \<or> is_agent_factory_message message)"

text \<open>
  \<^verbatim>\<open>b & v\<close> for a \<^verbatim>\<open>bool\<close> \<open>b\<close>: \<^verbatim>\<open>bool.__and__\<close> answers a \<^verbatim>\<open>bool\<close> for a \<^verbatim>\<open>bool\<close>,
  \<^verbatim>\<open>int.__and__\<close> a bitwise \<^verbatim>\<open>int\<close> for an \<^verbatim>\<open>int\<close>; every other operand has no reflected
  \<^verbatim>\<open>__rand__\<close> that accepts a \<^verbatim>\<open>bool\<close>, and Python raises \<^verbatim>\<open>TypeError\<close>.
\<close>

fun bool_and :: "bool \<Rightarrow> pyval \<Rightarrow> error + pyval" where
  "bool_and b (PBool c) = Inr (PBool (b \<and> c))"
| "bool_and b (PInt n) = Inr (PInt (of_bool b AND n))"
| "bool_and b PNone = Inl TypeError"
| "bool_and b (PFloat x) = Inl TypeError"
| "bool_and b (PStr s) = Inl TypeError"
| "bool_and b (PList xs) = Inl TypeError"
| "bool_and b (PDict kvs) = Inl TypeError"
| "bool_and b (PObject r) = Inl TypeError"

text \<open>\<^verbatim>\<open>v == "literal"\<close>: true for an equal \<^verbatim>\<open>str\<close> only; comparing a value of another
  type with a \<^verbatim>\<open>str\<close> is false and raises nothing.\<close>

fun eq_str :: "pyval \<Rightarrow> string \<Rightarrow> bool" where
  "eq_str (PStr t) s = (t = s)"
| "eq_str PNone s = False"
| "eq_str (PBool c) s = False"
| "eq_str (PInt n) s = False"
| "eq_str (PFloat x) s = False"
| "eq_str (PList xs) s = False"
| "eq_str (PDict kvs) s = False"
| "eq_str (PObject r) s = False"

text \<open>\<^verbatim>\<open>d[k]\<close> on a plain dictionary raises \<^verbatim>\<open>KeyError\<close> for a missing key.\<close>

definition subscript :: "(string \<rightharpoonup> pyval) \<Rightarrow> string \<Rightarrow> error + pyval" where
  "subscript d k = (case d k of None \<Rightarrow> Inl (KeyError k) | Some v \<Rightarrow> Inr v)"

text \<open>
  Lines 42 to 46 read
  \<^verbatim>\<open>is_user_message(message) & metadata.additional_metadata["instruction"] == "bootstrap_agent"\<close>.
  In Python \<^verbatim>\<open>&\<close> binds tighter than \<^verbatim>\<open>==\<close>, so the expression is
  \<^verbatim>\<open>(is_user_message(message) & additional_metadata["instruction"]) == "bootstrap_agent"\<close>:
  the left operand is evaluated, then the subscript, then \<^verbatim>\<open>&\<close>, then the comparison.
\<close>

definition is_user_bootstrap_message :: "Message \<Rightarrow> error + bool" where
  "is_user_bootstrap_message message =
     (let md = metadata message;
          user = is_user_message message
      in case subscript (additional_metadata md) ''instruction'' of
           Inl e \<Rightarrow> Inl e
         | Inr v \<Rightarrow>
             (case bool_and user v of
                Inl e \<Rightarrow> Inl e
              | Inr both \<Rightarrow> Inr (eq_str both ''bootstrap_agent'')))"

definition is_user_launch_message :: "Message \<Rightarrow> error + bool" where
  "is_user_launch_message message =
     (let md = metadata message;
          user = is_user_message message
      in case subscript (additional_metadata md) ''instruction'' of
           Inl e \<Rightarrow> Inl e
         | Inr v \<Rightarrow>
             (case bool_and user v of
                Inl e \<Rightarrow> Inl e
              | Inr both \<Rightarrow> Inr (eq_str both ''launch_agent'')))"

section \<open>The mailbox (\<^verbatim>\<open>FakeApplicationServer.message_queue\<close>)\<close>

text \<open>
  Line 65 binds \<^verbatim>\<open>message_queue\<close> to a \<^verbatim>\<open>defaultdict(list)\<close>: a dictionary from sender
  names to lists of messages whose \<^verbatim>\<open>__getitem__\<close> stores and returns a new empty list
  for a key that is missing.
\<close>

type_synonym mailbox = "string \<rightharpoonup> Message list"

definition getitem :: "mailbox \<Rightarrow> string \<Rightarrow> Message list \<times> mailbox" where
  "getitem mq k = (case mq k of Some q \<Rightarrow> (q, mq) | None \<Rightarrow> ([], mq(k \<mapsto> [])))"

text \<open>The messages queued under a sender name: none when the key is missing.\<close>

definition queued :: "mailbox \<Rightarrow> string \<Rightarrow> Message list" where
  "queued mq k = (case mq k of Some q \<Rightarrow> q | None \<Rightarrow> [])"

text \<open>
  Line 102, \<^verbatim>\<open>self.message_queue[message.metadata.sender.name].append(message)\<close>, as a
  function of the dictionary that \<^verbatim>\<open>self.message_queue\<close> denotes. It is the body of the
  coroutine \<^verbatim>\<open>_add_to_queue\<close> (line 101, \<^verbatim>\<open>async def\<close>): what happens to the dictionary
  when the coroutine is run to its end, not when it is merely called.
\<close>

definition add_to_queue :: "Message \<Rightarrow> mailbox \<Rightarrow> mailbox" where
  "add_to_queue message mq =
     (let k = name (sender (metadata message));
          (q, mq') = getitem mq k
      in mq'(k \<mapsto> q @ [message]))"

text \<open>
  Lines 133 and 134 of \<^verbatim>\<open>boostrap_new_agent\<close> take the list queued under a key and bind
  the key to a new empty list. The source writes the key \<^verbatim>\<open>"autogpt-agent-factory"\<close> in
  both statements; here it is the parameter \<open>k\<close>.
\<close>

definition drain :: "string \<Rightarrow> mailbox \<Rightarrow> Message list \<times> mailbox" where
  "drain k mq = (let (responses, mq') = getitem mq k in (responses, mq'(k \<mapsto> [])))"

section \<open>The request handlers of \<^verbatim>\<open>FakeApplicationServer\<close>\<close>

text \<open>
  A request is any object with an attribute \<^verbatim>\<open>json\<close> that is a dictionary; the handlers
  read \<^verbatim>\<open>request.json["content"]\<close> and \<^verbatim>\<open>request.json["metadata"]\<close>.
\<close>

record Request =
  json :: "string \<rightharpoonup> pyval"

text \<open>\<^verbatim>\<open>**v\<close> inside a dictionary display needs a mapping; anything else, \<^verbatim>\<open>None\<close> included,
  raises \<^verbatim>\<open>TypeError\<close>.\<close>

fun unpack :: "pyval \<Rightarrow> error + (string \<rightharpoonup> pyval)" where
  "unpack (PDict kvs) = Inr (map_of kvs)"
| "unpack PNone = Inl TypeError"
| "unpack (PBool c) = Inl TypeError"
| "unpack (PInt n) = Inl TypeError"
| "unpack (PFloat x) = Inl TypeError"
| "unpack (PStr s) = Inl TypeError"
| "unpack (PList xs) = Inl TypeError"
| "unpack (PObject r) = Inl TypeError"

text \<open>
  \<^verbatim>\<open>{**request.json[key], **extra}\<close> (lines 110 and 111): the subscript, the first unpacking
  and the second one, in this order; the items of \<open>extra\<close> override those of the request.
\<close>

definition merged :: "Request \<Rightarrow> string \<Rightarrow> pyval \<Rightarrow> error + (string \<rightharpoonup> pyval)" where
  "merged request key extra =
     (case subscript (json request) key of
        Inl e \<Rightarrow> Inl e
      | Inr base \<Rightarrow>
          (case unpack base of
             Inl e \<Rightarrow> Inl e
           | Inr items \<Rightarrow>
               (case unpack extra of
                  Inl e \<Rightarrow> Inl e
                | Inr extra_items \<Rightarrow> Inr (items ++ extra_items))))"

text \<open>
  \<^verbatim>\<open>response = object()\<close>: an instance of \<^verbatim>\<open>object\<close> itself has no \<^verbatim>\<open>__dict__\<close>, so an
  assignment to any attribute of it raises \<^verbatim>\<open>AttributeError\<close>.
\<close>

datatype response = PlainObject

definition setattr_object :: "response \<Rightarrow> string \<Rightarrow> 'a \<Rightarrow> error + response" where
  "setattr_object r attribute v = Inl AttributeError"

text \<open>
  \<^verbatim>\<open>_send_message\<close> (lines 104 to 119). The emitter \<^verbatim>\<open>self._user_emitter\<close> belongs to the
  messaging package; its \<^verbatim>\<open>send_message\<close> is the parameter \<open>emit\<close>, which may change the
  mailbox (through the listeners of the broker) and may raise. The defaults of
  \<^verbatim>\<open>extra_content\<close> and \<^verbatim>\<open>extra_metadata\<close> are \<^verbatim>\<open>None\<close>.
\<close>

type_synonym emit =
  "(string \<rightharpoonup> pyval) \<Rightarrow> (string \<rightharpoonup> pyval) \<Rightarrow> mailbox \<Rightarrow> (error + bool) \<times> mailbox"

definition server_send_message ::
  "emit \<Rightarrow> Request \<Rightarrow> pyval \<Rightarrow> pyval \<Rightarrow> mailbox \<Rightarrow> (error + response) \<times> mailbox" where
  "server_send_message emit request extra_content extra_metadata mq =
     (case merged request ''content'' extra_content of
        Inl e \<Rightarrow> (Inl e, mq)
      | Inr content' \<Rightarrow>
          (case merged request ''metadata'' extra_metadata of
             Inl e \<Rightarrow> (Inl e, mq)
           | Inr metadata' \<Rightarrow>
               (case emit content' metadata' mq of
                  (Inl e, mq') \<Rightarrow> (Inl e, mq')
                | (Inr success, mq') \<Rightarrow>
                    (let response = PlainObject
                     in (if success
                         then setattr_object response ''status_code'' (200::int)
                         else setattr_object response ''status_code'' (500::int), mq')))))"

text \<open>\<^verbatim>\<open>boostrap_new_agent\<close> (lines 125 to 136). \<open>PObject 0\<close> stands for
  \<^verbatim>\<open>self._message_broker\<close>.\<close>

definition boostrap_new_agent ::
  "emit \<Rightarrow> Request \<Rightarrow> mailbox \<Rightarrow> (error + response) \<times> mailbox" where
  "boostrap_new_agent emit request mq =
     (case server_send_message emit request
             (PDict [(''message_broker'', PObject 0)])
             (PDict [(''instruction'', PStr ''bootstrap_agent'')]) mq of
        (Inl e, mq') \<Rightarrow> (Inl e, mq')
      | (Inr response, mq') \<Rightarrow>
          (let (agent_factory_responses, mq'') = drain ''autogpt-agent-factory'' mq'
           in (setattr_object response ''json'' agent_factory_responses, mq'')))"

text \<open>\<^verbatim>\<open>list.pop()\<close> removes and returns the last item, and raises \<^verbatim>\<open>IndexError\<close> on an
  empty list.\<close>

definition pop :: "'a list \<Rightarrow> error + ('a \<times> 'a list)" where
  "pop q = (if q = [] then Inl IndexError else Inr (last q, butlast q))"

text \<open>
  \<^verbatim>\<open>give_agent_feedback\<close> (lines 142 to 147) calls \<^verbatim>\<open>_send_message(request)\<close> with both
  defaults, then pops the queue of \<^verbatim>\<open>"autogpt-agent"\<close>, assigns \<^verbatim>\<open>response.json\<close> and
  falls off the end of its body, which returns \<^verbatim>\<open>None\<close> (here the unit value).
\<close>

definition give_agent_feedback ::
  "emit \<Rightarrow> Request \<Rightarrow> mailbox \<Rightarrow> (error + unit) \<times> mailbox" where
  "give_agent_feedback emit request mq =
     (case server_send_message emit request PNone PNone mq of
        (Inl e, mq') \<Rightarrow> (Inl e, mq')
      | (Inr response, mq') \<Rightarrow>
          (let (q, mq'') = getitem mq' ''autogpt-agent''
           in case pop q of
                Inl e \<Rightarrow> (Inl e, mq'')
              | Inr (m, q') \<Rightarrow>
                  (case setattr_object response ''json'' [(''content'', m)] of
                     Inl e \<Rightarrow> (Inl e, mq''(''autogpt-agent'' \<mapsto> q'))
                   | Inr response' \<Rightarrow> (Inr (), mq''(''autogpt-agent'' \<mapsto> q')))))"

section \<open>Classes, instances and the attribute \<^verbatim>\<open>message_queue\<close>\<close>

text \<open>
  Objects live in a heap and are known by their addresses. The class body of
  \<^verbatim>\<open>FakeApplicationServer\<close> binds \<^verbatim>\<open>message_queue\<close> in the namespace of the class
  (line 65); \<^verbatim>\<open>__init__\<close> (lines 67 to 74) binds \<^verbatim>\<open>_message_broker\<close> and
  \<^verbatim>\<open>_user_emitter\<close> in the namespace of the new instance. Broker and emitter are objects
  of the messaging package and stay opaque here.
\<close>

type_synonym addr = nat

datatype pyobject =
    DefaultDict mailbox
  | Instance "string \<rightharpoonup> addr"
  | Opaque

record world =
  heap :: "addr \<rightharpoonup> pyobject"
  class_namespace :: "string \<rightharpoonup> addr"
  next_addr :: addr

text \<open>Executing the class body: one \<^verbatim>\<open>defaultdict(list)\<close> is created and bound.\<close>

definition class_definition :: world where
  "class_definition =
     \<lparr>heap = [0 \<mapsto> DefaultDict Map.empty],
      class_namespace = [''message_queue'' \<mapsto> 0],
      next_addr = 1\<rparr>"

text \<open>\<^verbatim>\<open>FakeApplicationServer()\<close>: a new instance, whose \<^verbatim>\<open>__init__\<close> sets two attributes.\<close>

definition new_server :: "world \<Rightarrow> addr \<times> world" where
  "new_server w =
     (let self = next_addr w;
          broker = self + 1;
          emitter = self + 2
      in (self,
          w\<lparr>heap := (heap w)
               (broker \<mapsto> Opaque,
                emitter \<mapsto> Opaque,
                self \<mapsto> Instance [''_message_broker'' \<mapsto> broker, ''_user_emitter'' \<mapsto> emitter]),
            next_addr := self + 3\<rparr>))"

text \<open>\<^verbatim>\<open>obj.attribute\<close> on an instance: the namespace of the instance first, then that of
  its class.\<close>

definition getattr :: "world \<Rightarrow> addr \<Rightarrow> string \<Rightarrow> error + addr" where
  "getattr w obj attribute =
     (case heap w obj of
        Some (Instance d) \<Rightarrow>
          (case d attribute of
             Some a \<Rightarrow> Inr a
           | None \<Rightarrow>
               (case class_namespace w attribute of
                  Some a \<Rightarrow> Inr a
                | None \<Rightarrow> Inl AttributeError))
      | _ \<Rightarrow> Inl AttributeError)"

definition deref_mailbox :: "world \<Rightarrow> addr \<Rightarrow> error + mailbox" where
  "deref_mailbox w a = (case heap w a of Some (DefaultDict mq) \<Rightarrow> Inr mq | _ \<Rightarrow> Inl TypeError)"

text \<open>The mailbox as seen through an instance (\<^verbatim>\<open>self.message_queue\<close>) and through the
  class (\<^verbatim>\<open>FakeApplicationServer.message_queue\<close>).\<close>

definition instance_message_queue :: "world \<Rightarrow> addr \<Rightarrow> error + mailbox" where
  "instance_message_queue w self =
     (case getattr w self ''message_queue'' of Inl e \<Rightarrow> Inl e | Inr a \<Rightarrow> deref_mailbox w a)"

definition class_message_queue :: "world \<Rightarrow> error + mailbox" where
  "class_message_queue w =
     (case class_namespace w ''message_queue'' of
        None \<Rightarrow> Inl AttributeError
      | Some a \<Rightarrow> deref_mailbox w a)"

text \<open>\<^verbatim>\<open>_add_to_queue\<close> (lines 101 and 102) as a method of the instance \<open>self\<close>, run to
  its end: the dictionary that \<^verbatim>\<open>self.message_queue\<close> resolves to is updated in place.\<close>

definition instance_add_to_queue :: "addr \<Rightarrow> Message \<Rightarrow> world \<Rightarrow> (error + unit) \<times> world" where
  "instance_add_to_queue self message w =
     (case getattr w self ''message_queue'' of
        Inl e \<Rightarrow> (Inl e, w)
      | Inr a \<Rightarrow>
          (case heap w a of
             Some (DefaultDict mq) \<Rightarrow>
               (Inr (), w\<lparr>heap := (heap w)(a \<mapsto> DefaultDict (add_to_queue message mq))\<rparr>)
           | _ \<Rightarrow> (Inl TypeError, w)))"

text \<open>
  An instance whose own namespace does not bind \<^verbatim>\<open>message_queue\<close>: what \<^verbatim>\<open>__init__\<close>
  leaves behind, since it assigns \<^verbatim>\<open>_message_broker\<close> and \<^verbatim>\<open>_user_emitter\<close> only and no
  method of the class assigns the attribute \<^verbatim>\<open>message_queue\<close> of \<^verbatim>\<open>self\<close>.
\<close>

definition server_instance :: "world \<Rightarrow> addr \<Rightarrow> bool" where
  "server_instance w i =
     (case heap w i of Some (Instance d) \<Rightarrow> d ''message_queue'' = None | _ \<Rightarrow> False)"

text \<open>The worlds that arise from the class definition by creating instances and by
  running \<^verbatim>\<open>_add_to_queue\<close> of any object to its end.\<close>

inductive reachable :: "world \<Rightarrow> bool" where
  class_defined: "reachable class_definition"
| instance_created: "reachable w \<Longrightarrow> reachable (snd (new_server w))"
| message_added: "reachable w \<Longrightarrow> reachable (snd (instance_add_to_queue self message w))"

text \<open>What holds in every such world: the class attribute is bound to a dictionary, no
  instance shadows it, and the addresses from \<open>next_addr\<close> on are free.\<close>

definition world_invariant :: "world \<Rightarrow> bool" where
  "world_invariant w \<longleftrightarrow>
     (\<exists>a mq. class_namespace w ''message_queue'' = Some a \<and> heap w a = Some (DefaultDict mq)) \<and>
     (\<forall>i d. heap w i = Some (Instance d) \<longrightarrow> d ''message_queue'' = None) \<and>
     (\<forall>a. next_addr w \<le> a \<longrightarrow> heap w a = None)"

section \<open>Properties of the filter predicates\<close>

lemma bool_and_eq_str: "bool_and b v = Inr r \<Longrightarrow> eq_str r s = False"
  by (cases v) auto

text \<open>Whatever the message, neither instruction filter ever answers true: the operand of
  the comparison is the result of \<^verbatim>\<open>&\<close>, a \<^verbatim>\<open>bool\<close> or an \<^verbatim>\<open>int\<close>, never a \<^verbatim>\<open>str\<close>.\<close>

lemma is_user_bootstrap_message_never_true: "is_user_bootstrap_message m \<noteq> Inr True"
  by (auto simp: is_user_bootstrap_message_def Let_def bool_and_eq_str split: sum.splits)

lemma is_user_launch_message_never_true: "is_user_launch_message m \<noteq> Inr True"
  by (auto simp: is_user_launch_message_def Let_def bool_and_eq_str split: sum.splits)

text \<open>
  Claim C1, as it is stated, fails on the code. The claim reads: for a message whose
  additional metadata lacks the key \<^verbatim>\<open>instruction\<close>, both instruction filters return
  false and raise nothing. The code subscripts the dictionary without a guard: at a user
  message with empty additional metadata both filters raise \<^verbatim>\<open>KeyError\<close>.
\<close>

theorem missing_instruction_counterexample:
  "is_user_bootstrap_message
     \<lparr>content = Map.empty,
      metadata = \<lparr>sender = \<lparr>name = ''autogpt-user'', role = USER\<rparr>,
                  additional_metadata = Map.empty\<rparr>\<rparr>
     = Inl (KeyError ''instruction'') \<and>
   is_user_launch_message
     \<lparr>content = Map.empty,
      metadata = \<lparr>sender = \<lparr>name = ''autogpt-user'', role = USER\<rparr>,
                  additional_metadata = Map.empty\<rparr>\<rparr>
     = Inl (KeyError ''instruction'')"
  by (simp add: is_user_bootstrap_message_def is_user_launch_message_def subscript_def)

text \<open>
  Claim C1, amended: for every message whose additional metadata lacks the key
  \<^verbatim>\<open>instruction\<close>, \<open>is_user_bootstrap_message\<close> and \<open>is_user_launch_message\<close> each raise
  \<^verbatim>\<open>KeyError\<close> for that key, whatever the role of the sender; neither returns a value.
\<close>

theorem missing_instruction_raises_KeyError:
  "additional_metadata (metadata m) ''instruction'' = None \<Longrightarrow>
   is_user_bootstrap_message m = Inl (KeyError ''instruction'') \<and>
   is_user_launch_message m = Inl (KeyError ''instruction'')"
  by (simp add: is_user_bootstrap_message_def is_user_launch_message_def subscript_def)

theorem missing_instruction_raises_KeyError_witness:
  "let m = \<lparr>content = [''result'' \<mapsto> PStr ''ok''],
            metadata = \<lparr>sender = \<lparr>name = ''autogpt-agent-factory'', role = AGENT_FACTORY\<rparr>,
                        additional_metadata = [''trace'' \<mapsto> PInt 7]\<rparr>\<rparr>
   in additional_metadata (metadata m) ''instruction'' = None \<and>
      is_user_bootstrap_message m = Inl (KeyError ''instruction'') \<and>
      is_user_launch_message m = Inl (KeyError ''instruction'')"
  (is "let m = ?m in _")
proof -
  have h: "additional_metadata (metadata ?m) ''instruction'' = None" by simp
  from missing_instruction_raises_KeyError [OF h]
  show ?thesis by (simp add: Let_def)
qed

text \<open>
  Claim C2 reads: \<open>is_user_bootstrap_message\<close> returns true exactly when the sender is a
  user and the instruction is \<^verbatim>\<open>"bootstrap_agent"\<close>. At that very message the code raises
  \<^verbatim>\<open>TypeError\<close>: it evaluates \<^verbatim>\<open>True & "bootstrap_agent"\<close> before the comparison.
\<close>

theorem is_user_bootstrap_message_raises_at_bootstrap:
  "is_user_bootstrap_message
     \<lparr>content = Map.empty,
      metadata = \<lparr>sender = \<lparr>name = ''autogpt-user'', role = USER\<rparr>,
                  additional_metadata = [''instruction'' \<mapsto> PStr ''bootstrap_agent'']\<rparr>\<rparr>
   = Inl TypeError"
  by (simp add: is_user_bootstrap_message_def subscript_def)

text \<open>
  Claim C3 reads: \<open>is_user_launch_message\<close> returns true exactly when the sender is a user
  and the instruction is \<^verbatim>\<open>"launch_agent"\<close>. At that very message the code raises
  \<^verbatim>\<open>TypeError\<close>: it evaluates \<^verbatim>\<open>True & "launch_agent"\<close> before the comparison.
\<close>

theorem is_user_launch_message_raises_at_launch:
  "is_user_launch_message
     \<lparr>content = Map.empty,
      metadata = \<lparr>sender = \<lparr>name = ''autogpt-user'', role = USER\<rparr>,
                  additional_metadata = [''instruction'' \<mapsto> PStr ''launch_agent'']\<rparr>\<rparr>
   = Inl TypeError"
  by (simp add: is_user_launch_message_def subscript_def)

text \<open>
  Claim C4: \<open>is_server_message\<close> is true for a message whose sender has the role
  \<open>AGENT\<close> or \<open>AGENT_FACTORY\<close>, and false for one whose sender has the role \<open>USER\<close>.
\<close>

theorem is_server_message_by_role:
  "(role (sender (metadata m)) = AGENT \<or> role (sender (metadata m)) = AGENT_FACTORY
      \<longrightarrow> is_server_message m) \<and>
   (role (sender (metadata m)) = USER \<longrightarrow> \<not> is_server_message m)"
  by (simp add: is_server_message_def is_agent_message_def is_agent_factory_message_def)

theorem is_server_message_by_role_witness:
  "let agent = \<lparr>content = Map.empty,
                metadata = \<lparr>sender = \<lparr>name = ''autogpt-agent'', role = AGENT\<rparr>,
                            additional_metadata = Map.empty\<rparr>\<rparr>;
       factory = \<lparr>content = Map.empty,
                  metadata = \<lparr>sender = \<lparr>name = ''autogpt-agent-factory'', role = AGENT_FACTORY\<rparr>,
                              additional_metadata = Map.empty\<rparr>\<rparr>;
       user = \<lparr>content = Map.empty,
               metadata = \<lparr>sender = \<lparr>name = ''autogpt-user'', role = USER\<rparr>,
                           additional_metadata = Map.empty\<rparr>\<rparr>
   in is_server_message agent \<and> is_server_message factory \<and> \<not> is_server_message user"
  (is "let agent = ?agent; factory = ?factory; user = ?user in _")
  using is_server_message_by_role [of ?agent] is_server_message_by_role [of ?factory]
    is_server_message_by_role [of ?user]
  by (simp add: Let_def)

section \<open>Properties of the mailbox\<close>

lemma queued_empty: "queued Map.empty k = []"
  by (simp add: queued_def)

lemma queued_add_to_queue:
  "queued (add_to_queue m mq) k =
     (if k = name (sender (metadata m)) then queued mq k @ [m] else queued mq k)"
  by (simp add: add_to_queue_def getitem_def queued_def Let_def split: option.splits)

lemma fst_drain: "fst (drain k mq) = queued mq k"
  by (simp add: drain_def getitem_def queued_def split: option.splits)

lemma queued_drain: "queued (snd (drain k mq)) k' = (if k' = k then [] else queued mq k')"
  by (simp add: drain_def getitem_def queued_def split: option.splits)

text \<open>Any run of deliveries: a queue holds, after what it held before, the delivered
  messages of its sender in the order of delivery.\<close>

lemma queued_after_deliveries:
  "queued (foldl (\<lambda>q m. add_to_queue m q) mq ms) k =
     queued mq k @ filter (\<lambda>m. name (sender (metadata m)) = k) ms"
  by (induction ms arbitrary: mq) (auto simp: queued_add_to_queue)

text \<open>
  Lines 133 and 134 taken by themselves: when \<open>m1\<close> and then \<open>m2\<close> have been appended
  under one sender name that had nothing queued, the two statements yield \<open>[m1, m2]\<close>
  for that name, yield the empty list when run again, and yield the empty list for any
  name with nothing queued.
\<close>

lemma drain_statements_in_order:
  "name (sender (metadata m1)) = n \<Longrightarrow> name (sender (metadata m2)) = n \<Longrightarrow>
   queued mq n = [] \<Longrightarrow>
   fst (drain n (add_to_queue m2 (add_to_queue m1 mq))) = [m1, m2] \<and>
   fst (drain n (snd (drain n (add_to_queue m2 (add_to_queue m1 mq))))) = [] \<and>
   (\<forall>k mq'. queued mq' k = [] \<longrightarrow> fst (drain k mq') = [])"
  by (simp add: fst_drain queued_add_to_queue queued_drain)

text \<open>
  Claim C6: the mailbox listener appends the very message it is given to the queue keyed
  by the name of the sender of the message; the queue is created on the first append for
  that name; the entry of every other name is left as it was.
\<close>

theorem add_to_queue_appends_to_sender_queue:
  "queued (add_to_queue m mq) (name (sender (metadata m)))
     = queued mq (name (sender (metadata m))) @ [m] \<and>
   (mq (name (sender (metadata m))) = None
      \<longrightarrow> add_to_queue m mq (name (sender (metadata m))) = Some [m]) \<and>
   (\<forall>k. k \<noteq> name (sender (metadata m)) \<longrightarrow> add_to_queue m mq k = mq k)"
  by (simp add: add_to_queue_def getitem_def queued_def Let_def split: option.splits)

theorem add_to_queue_appends_to_sender_queue_witness:
  "let m = \<lparr>content = [''step'' \<mapsto> PInt 2],
            metadata = \<lparr>sender = \<lparr>name = ''agent-1'', role = AGENT\<rparr>,
                        additional_metadata = Map.empty\<rparr>\<rparr>;
       r = \<lparr>content = [''result'' \<mapsto> PStr ''ok''],
            metadata = \<lparr>sender = \<lparr>name = ''autogpt-agent-factory'', role = AGENT_FACTORY\<rparr>,
                        additional_metadata = Map.empty\<rparr>\<rparr>;
       mq = [''autogpt-agent-factory'' \<mapsto> [r]]
   in mq ''agent-1'' = None \<and>
      add_to_queue m mq ''agent-1'' = Some [m] \<and>
      add_to_queue m mq ''autogpt-agent-factory'' = Some [r] \<and>
      queued (add_to_queue r mq) ''autogpt-agent-factory'' = [r, r]"
  (is "let m = ?m; r = ?r in _")
  using add_to_queue_appends_to_sender_queue [of ?m "[''autogpt-agent-factory'' \<mapsto> [?r]]"]
    add_to_queue_appends_to_sender_queue [of ?r "[''autogpt-agent-factory'' \<mapsto> [?r]]"]
  by (simp add: Let_def queued_def)

text \<open>
  Claim C9: the drain of \<^verbatim>\<open>boostrap_new_agent\<close> (lines 133 and 134) binds
  \<^verbatim>\<open>"autogpt-agent-factory"\<close> to an empty list and leaves the entry of every other sender
  name as it was.
\<close>

theorem drain_agent_factory_frame:
  "snd (drain ''autogpt-agent-factory'' mq) ''autogpt-agent-factory'' = Some [] \<and>
   (\<forall>k. k \<noteq> ''autogpt-agent-factory''
      \<longrightarrow> snd (drain ''autogpt-agent-factory'' mq) k = mq k)"
  by (simp add: drain_def getitem_def split: option.splits)

theorem drain_agent_factory_frame_witness:
  "let m = \<lparr>content = [''step'' \<mapsto> PInt 1],
            metadata = \<lparr>sender = \<lparr>name = ''agent-1'', role = AGENT\<rparr>,
                        additional_metadata = Map.empty\<rparr>\<rparr>;
       r = \<lparr>content = [''result'' \<mapsto> PStr ''ok''],
            metadata = \<lparr>sender = \<lparr>name = ''autogpt-agent-factory'', role = AGENT_FACTORY\<rparr>,
                        additional_metadata = Map.empty\<rparr>\<rparr>;
       mq = [''autogpt-agent-factory'' \<mapsto> [r], ''agent-1'' \<mapsto> [m]]
   in fst (drain ''autogpt-agent-factory'' mq) = [r] \<and>
      snd (drain ''autogpt-agent-factory'' mq) ''autogpt-agent-factory'' = Some [] \<and>
      snd (drain ''autogpt-agent-factory'' mq) ''agent-1'' = Some [m] \<and>
      snd (drain ''autogpt-agent-factory'' mq) ''agent-2'' = None"
  (is "let m = ?m; r = ?r in _")
  using drain_agent_factory_frame
    [of "[''autogpt-agent-factory'' \<mapsto> [?r], ''agent-1'' \<mapsto> [?m]]"]
  by (simp add: Let_def drain_def getitem_def)

section \<open>Properties of the request handlers\<close>

text \<open>\<^verbatim>\<open>_send_message\<close> never returns: it raises while merging, or the emitter raises, or
  the assignment to \<^verbatim>\<open>response.status_code\<close> raises.\<close>

lemma server_send_message_raises:
  "isl (fst (server_send_message emit request extra_content extra_metadata mq))"
  by (simp add: server_send_message_def setattr_object_def split: sum.splits prod.splits)

text \<open>With the default \<^verbatim>\<open>extra_content=None\<close> it raises at line 110, before the emitter
  is called, and the mailbox is as it was.\<close>

lemma server_send_message_default_raises:
  "\<exists>e. server_send_message emit request PNone extra_metadata mq = (Inl e, mq)"
  by (auto simp: server_send_message_def merged_def split: sum.splits)

lemma boostrap_new_agent_raises: "isl (fst (boostrap_new_agent emit request mq))"
  using server_send_message_raises
    [of emit request "PDict [(''message_broker'', PObject 0)]"
        "PDict [(''instruction'', PStr ''bootstrap_agent'')]" mq]
  by (auto simp: boostrap_new_agent_def split: prod.splits sum.splits)

text \<open>The mailbox that \<^verbatim>\<open>boostrap_new_agent\<close> leaves is the one the emitter left: the
  two drain statements are never reached.\<close>

lemma boostrap_new_agent_leaves_mailbox:
  "merged request ''content'' (PDict [(''message_broker'', PObject 0)]) = Inr c \<Longrightarrow>
   merged request ''metadata'' (PDict [(''instruction'', PStr ''bootstrap_agent'')]) = Inr md \<Longrightarrow>
   snd (boostrap_new_agent emit request mq) = snd (emit c md mq)"
  by (simp add: boostrap_new_agent_def server_send_message_def setattr_object_def
      split: sum.splits prod.splits)

text \<open>
  Claim C5 reads: after \<open>m1\<close> and then \<open>m2\<close> are appended under one sender name,
  draining that name yields \<open>[m1, m2]\<close>, and draining it again yields the empty list.
  The one place that drains is \<^verbatim>\<open>boostrap_new_agent\<close>, for the name
  \<^verbatim>\<open>"autogpt-agent-factory"\<close>. On a request with the JSON body
  \<^verbatim>\<open>{"content": {}, "metadata": {}}\<close>, with an emitter under which the two responses of
  the agent factory are appended and which reports success, the code raises
  \<^verbatim>\<open>AttributeError\<close> at \<^verbatim>\<open>response.status_code = 200\<close>, before lines 133 and 134: no
  list is returned and the queue still holds both messages.
\<close>

theorem boostrap_new_agent_raises_before_drain:
  "let m1 = \<lparr>content = [''step'' \<mapsto> PInt 1],
             metadata = \<lparr>sender = \<lparr>name = ''autogpt-agent-factory'', role = AGENT_FACTORY\<rparr>,
                         additional_metadata = Map.empty\<rparr>\<rparr>;
       m2 = \<lparr>content = [''step'' \<mapsto> PInt 2],
             metadata = \<lparr>sender = \<lparr>name = ''autogpt-agent-factory'', role = AGENT_FACTORY\<rparr>,
                         additional_metadata = Map.empty\<rparr>\<rparr>
   in boostrap_new_agent
        (\<lambda>c md mq. (Inr True, add_to_queue m2 (add_to_queue m1 mq)))
        \<lparr>json = [''content'' \<mapsto> PDict [], ''metadata'' \<mapsto> PDict []]\<rparr>
        Map.empty
      = (Inl AttributeError, [''autogpt-agent-factory'' \<mapsto> [m1, m2]])"
  by (simp add: Let_def boostrap_new_agent_def server_send_message_def merged_def
      subscript_def setattr_object_def add_to_queue_def getitem_def)

lemma give_agent_feedback_always_raises:
  "\<exists>e. give_agent_feedback emit request mq = (Inl e, mq)"
  using server_send_message_default_raises [of emit request PNone mq]
  by (auto simp: give_agent_feedback_def)

text \<open>What lines 145 to 147 would do to a queue: the last message appended is the one
  removed, and an empty queue raises \<^verbatim>\<open>IndexError\<close>.\<close>

lemma pop_last: "pop (q @ [m]) = Inr (m, q)"
  by (simp add: pop_def)

lemma pop_empty: "pop [] = Inl IndexError"
  by (simp add: pop_def)

text \<open>
  Claim C10 reads: \<^verbatim>\<open>give_agent_feedback\<close> removes and reads the message appended last to
  the queue of \<^verbatim>\<open>"autogpt-agent"\<close>, raises on an empty queue, and returns \<^verbatim>\<open>None\<close>. On a
  request with the JSON body \<^verbatim>\<open>{"content": {}, "metadata": {}}\<close> and a queue of two
  messages the code, whatever the emitter, raises \<^verbatim>\<open>TypeError\<close> in \<^verbatim>\<open>_send_message\<close>
  (\<^verbatim>\<open>**extra_content\<close> with the default \<^verbatim>\<open>None\<close>), removes nothing and returns nothing.
\<close>

theorem give_agent_feedback_raises_before_pop:
  "give_agent_feedback emit
     \<lparr>json = [''content'' \<mapsto> PDict [], ''metadata'' \<mapsto> PDict []]\<rparr>
     [''autogpt-agent'' \<mapsto> [m1, m2]]
   = (Inl TypeError, [''autogpt-agent'' \<mapsto> [m1, m2]])"
  by (simp add: give_agent_feedback_def server_send_message_def merged_def subscript_def)

section \<open>Properties of the class attribute\<close>

lemma getattr_server_instance:
  "server_instance w i \<Longrightarrow> class_namespace w ''message_queue'' = Some a \<Longrightarrow>
   getattr w i ''message_queue'' = Inr a"
  by (auto simp: server_instance_def getattr_def split: option.splits pyobject.splits)

lemma class_message_queueD:
  "class_message_queue w = Inr mq \<Longrightarrow>
   \<exists>a. class_namespace w ''message_queue'' = Some a \<and> heap w a = Some (DefaultDict mq)"
  by (auto simp: class_message_queue_def deref_mailbox_def split: option.splits pyobject.splits)

lemma server_instance_not_dict:
  "server_instance w i \<Longrightarrow> heap w a = Some (DefaultDict mq) \<Longrightarrow> i \<noteq> a"
  by (auto simp: server_instance_def)

text \<open>
  Claim C8: \<^verbatim>\<open>message_queue\<close> is one mapping of the class, shared by the instances. When
  the class attribute denotes the mailbox \<open>mq\<close> and \<open>i\<close> and \<open>j\<close> are instances that
  do not shadow it, then \<^verbatim>\<open>_add_to_queue\<close> called on \<open>i\<close> succeeds, and afterwards the
  mailbox read through \<open>j\<close>, through \<open>i\<close> and through the class is the same one, \<open>mq\<close>
  with the message appended.
\<close>

theorem message_queue_shared_by_instances:
  assumes "class_message_queue w = Inr mq"
    and "server_instance w i"
    and "server_instance w j"
  shows "fst (instance_add_to_queue i m w) = Inr () \<and>
         instance_message_queue (snd (instance_add_to_queue i m w)) j
           = Inr (add_to_queue m mq) \<and>
         instance_message_queue (snd (instance_add_to_queue i m w)) i
           = Inr (add_to_queue m mq) \<and>
         class_message_queue (snd (instance_add_to_queue i m w)) = Inr (add_to_queue m mq)"
proof -
  from assms(1) obtain a where a: "class_namespace w ''message_queue'' = Some a"
    and h: "heap w a = Some (DefaultDict mq)"
    using class_message_queueD by blast
  have gi: "getattr w i ''message_queue'' = Inr a"
    using assms(2) a by (simp add: getattr_server_instance)
  define w' where "w' = w\<lparr>heap := (heap w)(a \<mapsto> DefaultDict (add_to_queue m mq))\<rparr>"
  have step: "instance_add_to_queue i m w = (Inr (), w')"
    by (simp add: instance_add_to_queue_def gi h w'_def)
  have ia: "i \<noteq> a" and ja: "j \<noteq> a"
    using assms(2,3) h by (auto dest: server_instance_not_dict)
  have si: "server_instance w' i" and sj: "server_instance w' j"
    using assms(2,3) ia ja by (simp_all add: server_instance_def w'_def)
  have a': "class_namespace w' ''message_queue'' = Some a"
    and h': "heap w' a = Some (DefaultDict (add_to_queue m mq))"
    by (simp_all add: w'_def a)
  have "instance_message_queue w' j = Inr (add_to_queue m mq)"
    and "instance_message_queue w' i = Inr (add_to_queue m mq)"
    and "class_message_queue w' = Inr (add_to_queue m mq)"
    using si sj a' h'
    by (simp_all add: instance_message_queue_def class_message_queue_def deref_mailbox_def
        getattr_server_instance)
  with step show ?thesis by simp
qed

text \<open>The witness: the class is defined, two servers are created (at the addresses 1 and
  4), and a message is delivered to the first.\<close>

theorem message_queue_shared_by_instances_witness:
  "let w = snd (new_server (snd (new_server class_definition)));
       m = \<lparr>content = [''step'' \<mapsto> PInt 1],
            metadata = \<lparr>sender = \<lparr>name = ''autogpt-agent'', role = AGENT\<rparr>,
                        additional_metadata = Map.empty\<rparr>\<rparr>;
       w' = snd (instance_add_to_queue 1 m w)
   in class_message_queue w = Inr Map.empty \<and>
      server_instance w 1 \<and>
      server_instance w 4 \<and>
      fst (instance_add_to_queue 1 m w) = Inr () \<and>
      instance_message_queue w' 4 = Inr [''autogpt-agent'' \<mapsto> [m]] \<and>
      instance_message_queue w' 1 = Inr [''autogpt-agent'' \<mapsto> [m]] \<and>
      class_message_queue w' = Inr [''autogpt-agent'' \<mapsto> [m]]"
  (is "let w = ?w; m = ?m; w' = _ in _")
proof -
  have q: "class_message_queue ?w = Inr Map.empty"
    by (simp add: class_message_queue_def deref_mailbox_def new_server_def
        class_definition_def Let_def)
  have i: "server_instance ?w 1"
    by (simp add: server_instance_def new_server_def class_definition_def Let_def)
  have j: "server_instance ?w 4"
    by (simp add: server_instance_def new_server_def class_definition_def Let_def)
  have app: "add_to_queue ?m Map.empty = [''autogpt-agent'' \<mapsto> [?m]]"
    by (simp add: add_to_queue_def getitem_def)
  from message_queue_shared_by_instances [OF q i j, of ?m]
  show ?thesis using q i j unfolding Let_def by (simp add: app)
qed

text \<open>Every world that arises from the class definition satisfies the hypotheses of the
  theorem, for all of its instances.\<close>

lemma world_invariant_class_definition: "world_invariant class_definition"
  by (simp add: world_invariant_def class_definition_def)

lemma world_invariant_new_server:
  assumes "world_invariant w"
  shows "world_invariant (snd (new_server w))"
proof -
  let ?n = "next_addr w"
  let ?w = "snd (new_server w)"
  from assms obtain a mq where a: "class_namespace w ''message_queue'' = Some a"
    and h: "heap w a = Some (DefaultDict mq)"
    by (auto simp: world_invariant_def)
  from assms have inst: "\<And>i d. heap w i = Some (Instance d) \<Longrightarrow> d ''message_queue'' = None"
    and free: "\<And>b. ?n \<le> b \<Longrightarrow> heap w b = None"
    by (auto simp: world_invariant_def)
  from h free have "a < ?n"
    by (metis not_le_imp_less option.distinct(1))
  then have "class_namespace ?w ''message_queue'' = Some a \<and> heap ?w a = Some (DefaultDict mq)"
    using a h by (simp add: new_server_def Let_def)
  moreover have "\<forall>i d. heap ?w i = Some (Instance d) \<longrightarrow> d ''message_queue'' = None"
    using inst by (auto simp: new_server_def Let_def split: if_splits)
  moreover have "\<forall>b. next_addr ?w \<le> b \<longrightarrow> heap ?w b = None"
    using free by (simp add: new_server_def Let_def)
  ultimately show ?thesis
    unfolding world_invariant_def by blast
qed

lemma world_invariant_add_to_queue:
  "world_invariant w \<Longrightarrow> world_invariant (snd (instance_add_to_queue self m w))"
  unfolding world_invariant_def instance_add_to_queue_def
  by (auto split: sum.splits option.splits pyobject.splits)

lemma reachable_invariant: "reachable w \<Longrightarrow> world_invariant w"
  by (induction rule: reachable.induct)
    (simp_all add: world_invariant_class_definition world_invariant_new_server
      world_invariant_add_to_queue)

lemma reachable_server_instance:
  "reachable w \<Longrightarrow> heap w i = Some (Instance d) \<Longrightarrow> server_instance w i"
  using reachable_invariant [of w] by (simp add: world_invariant_def server_instance_def)

lemma reachable_class_message_queue: "reachable w \<Longrightarrow> \<exists>mq. class_message_queue w = Inr mq"
  using reachable_invariant [of w]
  by (auto simp: world_invariant_def class_message_queue_def deref_mailbox_def)

lemma new_server_creates_instance:
  "\<exists>d. heap (snd (new_server w)) (fst (new_server w)) = Some (Instance d)"
  by (simp add: new_server_def Let_def)

end
